theory Spec2Isabelle
  imports Complex_Main
begin

section \<open>Numbers of the program\<close>

text \<open>
  Every numeric field of the engine is a JavaScript number. The embedding takes a number
  to be an exact real, or one of the three special values that JavaScript arithmetic
  produces without any rounding being involved: \<open>Infinity\<close>, \<open>-Infinity\<close> and \<open>NaN\<close>.
  Rounding and overflow of finite results are not part of the embedding, and there is one
  zero only (it behaves as \<open>+0\<close>).
\<close>

datatype num = Fin real | PInf | NInf | NaN

fun is_fin :: "num \<Rightarrow> bool" where
  "is_fin (Fin r) = True"
| "is_fin PInf = False"
| "is_fin NInf = False"
| "is_fin NaN = False"

fun jneg :: "num \<Rightarrow> num" where
  "jneg (Fin a) = Fin (- a)"
| "jneg PInf = NInf"
| "jneg NInf = PInf"
| "jneg NaN = NaN"

fun jadd :: "num \<Rightarrow> num \<Rightarrow> num" where
  "jadd (Fin a) (Fin b) = Fin (a + b)"
| "jadd NaN b = NaN"
| "jadd a NaN = NaN"
| "jadd PInf NInf = NaN"
| "jadd NInf PInf = NaN"
| "jadd PInf b = PInf"
| "jadd NInf b = NInf"
| "jadd (Fin a) PInf = PInf"
| "jadd (Fin a) NInf = NInf"

definition jsub :: "num \<Rightarrow> num \<Rightarrow> num" where
  "jsub a b = jadd a (jneg b)"

text \<open>The sign of a number, for products and quotients with an infinite operand.\<close>

fun jsign :: "num \<Rightarrow> int option" where
  "jsign (Fin a) = Some (if a < 0 then - 1 else if a = 0 then 0 else 1)"
| "jsign PInf = Some 1"
| "jsign NInf = Some (- 1)"
| "jsign NaN = None"

definition inf_of :: "int \<Rightarrow> num" where
  "inf_of s = (if s = 0 then NaN else if s < 0 then NInf else PInf)"

fun jmul :: "num \<Rightarrow> num \<Rightarrow> num" where
  "jmul (Fin a) (Fin b) = Fin (a * b)"
| "jmul a b =
     (case (jsign a, jsign b) of
        (Some s, Some t) \<Rightarrow> inf_of (s * t)
      | _ \<Rightarrow> NaN)"

fun jdiv :: "num \<Rightarrow> num \<Rightarrow> num" where
  "jdiv (Fin a) (Fin b) =
     (if b = 0 then (if a = 0 then NaN else if a < 0 then NInf else PInf)
      else Fin (a / b))"
| "jdiv (Fin a) PInf = Fin 0"
| "jdiv (Fin a) NInf = Fin 0"
| "jdiv PInf (Fin b) = (if b < 0 then NInf else PInf)"
| "jdiv NInf (Fin b) = (if b < 0 then PInf else NInf)"
| "jdiv a b = NaN"

fun jsqrt :: "num \<Rightarrow> num" where
  "jsqrt (Fin a) = (if a < 0 then NaN else Fin (sqrt a))"
| "jsqrt PInf = PInf"
| "jsqrt NInf = NaN"
| "jsqrt NaN = NaN"

text \<open>\<open>v ** 2\<close>\<close>

definition jpow2 :: "num \<Rightarrow> num" where
  "jpow2 a = jmul a a"

text \<open>Comparisons: every comparison with \<open>NaN\<close> is false.\<close>

fun jlt :: "num \<Rightarrow> num \<Rightarrow> bool" where
  "jlt (Fin a) (Fin b) = (a < b)"
| "jlt NaN b = False"
| "jlt a NaN = False"
| "jlt a NInf = False"
| "jlt PInf b = False"
| "jlt NInf b = True"
| "jlt (Fin a) PInf = True"

definition jgt :: "num \<Rightarrow> num \<Rightarrow> bool" where
  "jgt a b = jlt b a"

definition jge :: "num \<Rightarrow> num \<Rightarrow> bool" where
  "jge a b = (a \<noteq> NaN \<and> b \<noteq> NaN \<and> \<not> jlt a b)"

text \<open>\<open>Math.max\<close> and \<open>Math.min\<close>: \<open>NaN\<close> as soon as one argument is \<open>NaN\<close>.\<close>

definition jmax :: "num \<Rightarrow> num \<Rightarrow> num" where
  "jmax a b = (if a = NaN \<or> b = NaN then NaN else if jlt a b then b else a)"

definition jmin :: "num \<Rightarrow> num \<Rightarrow> num" where
  "jmin a b = (if a = NaN \<or> b = NaN then NaN else if jlt b a then b else a)"


section \<open>Bodies and configuration\<close>

text \<open>
  A sprite is the image element that \<open>loadImage\<close> resolves to; it is identified by its
  \<open>src\<close>. A property that an object literal does not set reads as \<open>undefined\<close>: such a
  field is an option, with \<open>None\<close> for \<open>undefined\<close>.
\<close>

datatype image = Image string

record body =
  x :: num
  y :: num
  width :: num
  height :: num
  sprite :: "image option"
  velocityX :: num
  velocityY :: num
  angle :: num
  angularVelocity :: num
  scale :: num
  mass :: num
  reproductionChance :: "num option"

text \<open>The props of \<open>PhysicsEngine\<close>; the two counts are natural numbers.\<close>

record config =
  gravity :: num
  friction :: num
  bounceFriction :: num
  drag :: num
  maxObjects :: nat
  angularVelocityFactor :: num
  objectCount :: nat
  userImages :: "string list"

definition defaults :: config where
  "defaults =
     \<lparr> gravity = Fin (2 / 10), friction = Fin (99 / 100), bounceFriction = Fin (7 / 10),
       drag = Fin (99 / 100), maxObjects = 20, angularVelocityFactor = Fin (5 / 100),
       objectCount = 5, userImages = [''https://via.placeholder.com/50''] \<rparr>"

text \<open>
  \<open>Math.random()\<close>: the successive results are a sequence of reals of \<open>[0, 1)\<close>, and the
  functions that draw from it take the index of the next draw and return the new one.
\<close>

type_synonym random = "nat \<Rightarrow> real"

definition randomBetween :: "random \<Rightarrow> nat \<Rightarrow> num \<Rightarrow> num \<Rightarrow> num" where
  "randomBetween rnd k lo hi = jadd (jmul (Fin (rnd k)) (jsub hi lo)) lo"

section \<open>Loading the sprites and creating the bodies\<close>

text \<open>
  \<open>loadImage\<close> returns a promise that resolves with the image when the browser loads
  \<open>src\<close> and rejects when it fails; \<open>loads\<close> says which of the two happens for a URL.
  \<open>Promise.all\<close> resolves with all the results when every promise resolves and rejects as
  soon as one of them rejects.
\<close>

datatype rejection = ErrorEvent

definition loadImage :: "(string \<Rightarrow> bool) \<Rightarrow> string \<Rightarrow> rejection + image" where
  "loadImage loads src = (if loads src then Inr (Image src) else Inl ErrorEvent)"

fun promise_all :: "('e + 'a) list \<Rightarrow> 'e + 'a list" where
  "promise_all [] = Inr []"
| "promise_all (Inl e # ps) = Inl e"
| "promise_all (Inr v # ps) = (case promise_all ps of Inl e \<Rightarrow> Inl e | Inr vs \<Rightarrow> Inr (v # vs))"

text \<open>
  One round of the loop of \<open>createObjects\<close>: the eight draws of the object literal, in the
  order of its properties. \<open>images[i % images.length]\<close> is \<open>undefined\<close> when there is no
  image.
\<close>

definition createObject ::
  "config \<Rightarrow> image list \<Rightarrow> num \<Rightarrow> num \<Rightarrow> random \<Rightarrow> nat \<Rightarrow> nat \<Rightarrow> body" where
  "createObject cfg images innerWidth innerHeight rnd k i =
     \<lparr> x = randomBetween rnd k (Fin 50) (jsub innerWidth (Fin 50)),
       y = randomBetween rnd (k + 1) (Fin 50) (jsub innerHeight (Fin 50)),
       width = randomBetween rnd (k + 2) (Fin 30) (Fin 50),
       height = randomBetween rnd (k + 3) (Fin 30) (Fin 50),
       sprite = (if images = [] then None else Some (images ! (i mod length images))),
       velocityX = randomBetween rnd (k + 4) (Fin (- 5)) (Fin 5),
       velocityY = randomBetween rnd (k + 5) (Fin (- 5)) (Fin 5),
       angle = randomBetween rnd (k + 6) (Fin 0) (Fin 360),
       angularVelocity =
         randomBetween rnd (k + 7) (jneg (angularVelocityFactor cfg)) (angularVelocityFactor cfg),
       scale = Fin 1,
       mass = Fin 1,
       reproductionChance = Some (Fin (1 / 100)) \<rparr>"

fun createLoop ::
  "config \<Rightarrow> image list \<Rightarrow> num \<Rightarrow> num \<Rightarrow> random \<Rightarrow> nat \<Rightarrow> nat \<Rightarrow> nat \<Rightarrow> body list" where
  "createLoop cfg images innerWidth innerHeight rnd k i 0 = []"
| "createLoop cfg images innerWidth innerHeight rnd k i (Suc n) =
     createObject cfg images innerWidth innerHeight rnd k i
       # createLoop cfg images innerWidth innerHeight rnd (k + 8) (Suc i) n"

definition createObjects ::
  "config \<Rightarrow> (string \<Rightarrow> bool) \<Rightarrow> num \<Rightarrow> num \<Rightarrow> random \<Rightarrow> rejection + body list" where
  "createObjects cfg loads innerWidth innerHeight rnd =
     (case promise_all (map (loadImage loads) (userImages cfg)) of
        Inl e \<Rightarrow> Inl e
      | Inr images \<Rightarrow> Inr (createLoop cfg images innerWidth innerHeight rnd 0 0 (objectCount cfg)))"

text \<open>
  \<open>initialize\<close> awaits \<open>createObjects\<close> and then calls \<open>setObjects\<close>; when the promise
  rejects, \<open>setObjects\<close> is not reached and the state keeps its value.
\<close>

definition initialize ::
  "config \<Rightarrow> (string \<Rightarrow> bool) \<Rightarrow> num \<Rightarrow> num \<Rightarrow> random \<Rightarrow> body list \<Rightarrow> body list" where
  "initialize cfg loads innerWidth innerHeight rnd objects =
     (case createObjects cfg loads innerWidth innerHeight rnd of
        Inl e \<Rightarrow> objects
      | Inr initialObjects \<Rightarrow> initialObjects)"

section \<open>The operations of a tick\<close>

definition detectCollisions :: "body \<Rightarrow> body \<Rightarrow> bool" where
  "detectCollisions obj1 obj2 =
     (let distX = jsub (x obj1) (x obj2);
          distY = jsub (y obj1) (y obj2);
          distance = jsqrt (jadd (jmul distX distX) (jmul distY distY))
      in jlt distance (jdiv (jadd (width obj1) (width obj2)) (Fin 2)))"

text \<open>
  \<open>updateObject\<close> mutates the body; the embedding returns the body after the call. Each
  bound variable is the value of a field after one assignment of the source, in the order
  of the source. The arithmetic is that of the numbers above: exact on finite values, where
  a double rounds or overflows, and the same as the source on \<open>NaN\<close> and the infinities.
\<close>

definition updateObject :: "config \<Rightarrow> body \<Rightarrow> num \<Rightarrow> num \<Rightarrow> body" where
  "updateObject cfg obj cw ch =
     (let vy1 = jadd (velocityY obj) (gravity cfg);
          vx2 = jmul (velocityX obj) (drag cfg);
          vy2 = jmul vy1 (drag cfg);
          x1 = jadd (x obj) vx2;
          y1 = jadd (y obj) vy2;
          vx3 = (if jgt (jadd x1 (jdiv (width obj) (Fin 2))) cw
                    \<or> jlt (jsub x1 (jdiv (width obj) (Fin 2))) (Fin 0)
                 then jmul (jneg vx2) (bounceFriction cfg) else vx2);
          vy3 = (if jgt (jadd y1 (jdiv (height obj) (Fin 2))) ch
                    \<or> jlt (jsub y1 (jdiv (height obj) (Fin 2))) (Fin 0)
                 then jmul (jneg vy2) (bounceFriction cfg) else vy2);
          x2 = jmin (jmax (jdiv (width obj) (Fin 2)) x1) (jsub cw (jdiv (width obj) (Fin 2)));
          y2 = jmin (jmax (jdiv (height obj) (Fin 2)) y1) (jsub ch (jdiv (height obj) (Fin 2)));
          angle1 = jadd (angle obj) (angularVelocity obj);
          scale1 = (if jge (scale obj) (Fin (15 / 10)) then Fin 1 else scale obj);
          scale2 = jadd scale1 (Fin (1 / 100))
      in obj\<lparr>x := x2, y := y2, velocityX := vx3, velocityY := vy3,
              angle := angle1, scale := scale2\<rparr>)"

text \<open>
  \<open>Math.random() < obj.reproductionChance\<close>: a comparison with \<open>undefined\<close> is false.
\<close>

fun below_chance :: "real \<Rightarrow> num option \<Rightarrow> bool" where
  "below_chance r None = False"
| "below_chance r (Some c) = jlt (Fin r) c"

text \<open>
  \<open>reproduceObject\<close> reads the state variable \<open>objects\<close> of the closure. It draws once
  for the test and, when it produces a child, four times more. The result is the child
  or \<open>null\<close>, and the index of the next draw.
\<close>

definition reproduceObject ::
  "config \<Rightarrow> body list \<Rightarrow> random \<Rightarrow> nat \<Rightarrow> body \<Rightarrow> body \<Rightarrow> body option \<times> nat" where
  "reproduceObject cfg objects rnd k obj obj2 =
     (if below_chance (rnd k) (reproductionChance obj) \<and> length objects < maxObjects cfg
      then (Some \<lparr> x = jdiv (jadd (x obj) (x obj2)) (Fin 2),
                   y = jdiv (jadd (y obj) (y obj2)) (Fin 2),
                   width = jdiv (jadd (width obj) (width obj2)) (Fin 2),
                   height = jdiv (jadd (height obj) (height obj2)) (Fin 2),
                   sprite = sprite obj,
                   velocityX = randomBetween rnd (k + 1) (Fin (- 5)) (Fin 5),
                   velocityY = randomBetween rnd (k + 2) (Fin (- 5)) (Fin 5),
                   angle = randomBetween rnd (k + 3) (Fin 0) (Fin 360),
                   angularVelocity =
                     randomBetween rnd (k + 4) (jneg (angularVelocityFactor cfg))
                       (angularVelocityFactor cfg),
                   scale = Fin 1,
                   mass = Fin 1,
                   reproductionChance = None \<rparr>, k + 5)
      else (None, k + 1))"

text \<open>
  \<open>handleCollisionResponse\<close> mutates both bodies; the embedding returns the pair of them
  after the call. The values that the body of the function computes first are
  functions of their own, so that the theorems can name them.
\<close>

definition distance :: "body \<Rightarrow> body \<Rightarrow> num" where
  "distance obj1 obj2 =
     jsqrt (jadd (jpow2 (jsub (x obj2) (x obj1))) (jpow2 (jsub (y obj2) (y obj1))))"

definition vCollisionNormX :: "body \<Rightarrow> body \<Rightarrow> num" where
  "vCollisionNormX obj1 obj2 = jdiv (jsub (x obj2) (x obj1)) (distance obj1 obj2)"

definition vCollisionNormY :: "body \<Rightarrow> body \<Rightarrow> num" where
  "vCollisionNormY obj1 obj2 = jdiv (jsub (y obj2) (y obj1)) (distance obj1 obj2)"

definition speed :: "body \<Rightarrow> body \<Rightarrow> num" where
  "speed obj1 obj2 =
     jadd (jmul (jsub (velocityX obj1) (velocityX obj2)) (vCollisionNormX obj1 obj2))
          (jmul (jsub (velocityY obj1) (velocityY obj2)) (vCollisionNormY obj1 obj2))"

definition impulse :: "body \<Rightarrow> body \<Rightarrow> num" where
  "impulse obj1 obj2 = jdiv (jmul (Fin 2) (speed obj1 obj2)) (jadd (mass obj1) (mass obj2))"

definition handleCollisionResponse :: "body \<Rightarrow> body \<Rightarrow> body \<times> body" where
  "handleCollisionResponse obj1 obj2 =
     (if jlt (speed obj1 obj2) (Fin 0) then (obj1, obj2)
      else
        (obj1\<lparr>velocityX :=
                 jsub (velocityX obj1)
                   (jmul (jmul (impulse obj1 obj2) (mass obj2)) (vCollisionNormX obj1 obj2)),
               velocityY :=
                 jsub (velocityY obj1)
                   (jmul (jmul (impulse obj1 obj2) (mass obj2)) (vCollisionNormY obj1 obj2))\<rparr>,
         obj2\<lparr>velocityX :=
                 jadd (velocityX obj2)
                   (jmul (jmul (impulse obj1 obj2) (mass obj1)) (vCollisionNormX obj1 obj2)),
               velocityY :=
                 jadd (velocityY obj2)
                   (jmul (jmul (impulse obj1 obj2) (mass obj1)) (vCollisionNormY obj1 obj2))\<rparr>))"

section \<open>The animation loop\<close>

text \<open>
  One call of \<open>animate\<close>. The array \<open>objects\<close> is the list; a body that a call mutates is
  written back at its index, so that every later read of the array sees it, as the shared
  objects of the source do. \<open>newObjects\<close> starts as a copy of the array holding the
  same objects, so at the end it is the mutated array followed by the children. The state
  of the loops is the array, the children pushed so far and the index of the next draw.
\<close>

type_synonym tick_state = "body list \<times> body list \<times> nat"

definition pairStep :: "config \<Rightarrow> random \<Rightarrow> nat \<Rightarrow> nat \<Rightarrow> tick_state \<Rightarrow> tick_state" where
  "pairStep cfg rnd idx i st =
     (case st of (objects, pushed, k) \<Rightarrow>
        if detectCollisions (objects ! idx) (objects ! i)
        then (case handleCollisionResponse (objects ! idx) (objects ! i) of (obj, obj2) \<Rightarrow>
                (case reproduceObject cfg objects rnd k obj obj2 of (newObject, k') \<Rightarrow>
                   (objects[idx := obj, i := obj2],
                    (case newObject of None \<Rightarrow> pushed | Some c \<Rightarrow> pushed @ [c]),
                    k')))
        else (objects, pushed, k))"

definition forEachStep ::
  "config \<Rightarrow> random \<Rightarrow> num \<Rightarrow> num \<Rightarrow> nat \<Rightarrow> tick_state \<Rightarrow> tick_state" where
  "forEachStep cfg rnd cw ch idx st =
     (case st of (objects, pushed, k) \<Rightarrow>
        fold (pairStep cfg rnd idx) [Suc idx ..< length objects]
          (objects[idx := updateObject cfg (objects ! idx) cw ch], pushed, k))"

text \<open>The value passed to \<open>setObjects\<close>, and the index of the next draw.\<close>

definition animate ::
  "config \<Rightarrow> random \<Rightarrow> num \<Rightarrow> num \<Rightarrow> nat \<Rightarrow> body list \<Rightarrow> body list \<times> nat" where
  "animate cfg rnd cw ch k objects =
     (case fold (forEachStep cfg rnd cw ch) [0 ..< length objects] (objects, [], k) of
        (objects', pushed, k') \<Rightarrow> (objects' @ pushed, k'))"


section \<open>Sample bodies\<close>

text \<open>
  A body as \<open>createObjects\<close> makes them: every field lies in the range it is drawn from
  for a canvas of 800 by 600. The three bodies of \<open>crowd\<close> overlap pairwise and rise at
  the speed that one step of gravity cancels.
\<close>

definition bodyAt :: "real \<Rightarrow> real \<Rightarrow> real \<Rightarrow> body" where
  "bodyAt px vx vy =
     \<lparr> x = Fin px, y = Fin 100, width = Fin 40, height = Fin 40,
       sprite = Some (Image ''a.png''), velocityX = Fin vx, velocityY = Fin vy,
       angle = Fin 0, angularVelocity = Fin 0, scale = Fin 1, mass = Fin 1,
       reproductionChance = Some (Fin (1 / 100)) \<rparr>"

definition crowd :: "body list" where
  "crowd = [bodyAt 100 0 (- (2 / 10)), bodyAt 101 0 (- (2 / 10)), bodyAt 102 0 (- (2 / 10))]"

section \<open>Arithmetic on finite numbers\<close>

lemma jsub_Fin [simp]: "jsub (Fin a) (Fin b) = Fin (a - b)"
  by (simp add: jsub_def)

lemma jsub_zero [simp]: "jsub a (Fin 0) = a"
  by (cases a) (simp_all add: jsub_def)

lemma jadd_zero [simp]: "jadd a (Fin 0) = a"
  by (cases a) simp_all




lemma jsub_swap: "jsub a b = jneg (jsub b a)"
  by (cases a; cases b; simp add: jsub_def)

lemma jmul_neg_neg: "jmul (jneg a) (jneg a) = jmul a a"
  by (cases a; simp add: inf_of_def)

lemma jadd_commute: "jadd a b = jadd b a"
  by (cases a; cases b; simp)

section \<open>The normal of a pair\<close>

lemma distance_Fin:
  assumes "x a = Fin xa" "y a = Fin ya" "x b = Fin xb" "y b = Fin yb"
  shows "distance a b = Fin (sqrt ((xb - xa) * (xb - xa) + (yb - ya) * (yb - ya)))"
  using assms by (simp add: distance_def jpow2_def not_less)

lemma distance_pos:
  assumes "xa \<noteq> xb \<or> ya \<noteq> (yb::real)"
  shows "0 < sqrt ((xb - xa) * (xb - xa) + (yb - ya) * (yb - ya))"
proof -
  have "0 < (xb - xa) * (xb - xa) + (yb - ya) * (yb - ya)"
    using assms by (auto simp add: sum_squares_gt_zero_iff)
  then show ?thesis by simp
qed

text \<open>Two bodies at the same height, the first one on the left: the normal is the x axis.\<close>

lemma on_axis_normal:
  assumes "x a = Fin xa" "x b = Fin xb" "y a = Fin ya" "y b = Fin ya" "xa < xb"
  shows "vCollisionNormX a b = Fin 1" and "vCollisionNormY a b = Fin 0"
proof -
  have d: "distance a b = Fin (xb - xa)"
    using assms by (simp add: distance_def jpow2_def)
  show "vCollisionNormX a b = Fin 1" using assms d by (simp add: vCollisionNormX_def)
  show "vCollisionNormY a b = Fin 0" using assms d by (simp add: vCollisionNormY_def)
qed

lemma on_axis_speed:
  assumes "x a = Fin xa" "x b = Fin xb" "y a = Fin ya" "y b = Fin ya" "xa < xb"
    and "velocityX a = Fin ux" "velocityX b = Fin wx"
    and "velocityY a = Fin uy" "velocityY b = Fin wy"
  shows "speed a b = Fin (ux - wx)"
  using assms(6-9) on_axis_normal [OF assms(1-5)] by (simp add: speed_def)


lemmas tick_defs =
  animate_def forEachStep_def pairStep_def detectCollisions_def handleCollisionResponse_def
  speed_def impulse_def vCollisionNormX_def vCollisionNormY_def distance_def jpow2_def
  reproduceObject_def updateObject_def Let_def jgt_def jge_def jmin_def jmax_def
  randomBetween_def

section \<open>The population cap\<close>

text \<open>
  C1: the committed body set of a tick never holds more than \<open>maxObjects\<close> bodies, a
  reproduction counting the children spawned earlier in the same tick. The test of
  \<open>reproduceObject\<close> reads the length of the state variable \<open>objects\<close>, which no push
  of the tick changes. With a cap of 4, the three overlapping bodies of \<open>crowd\<close> and draws
  that are all 0, each of the three pairs spawns a child and the tick commits 6 bodies.
\<close>

theorem cap_exceeded_in_one_tick:
  "length crowd = 3
   \<and> maxObjects (defaults\<lparr>maxObjects := 4\<rparr>) = 4
   \<and> length (fst (animate (defaults\<lparr>maxObjects := 4\<rparr>) (\<lambda>k. 0) (Fin 800) (Fin 600) 0 crowd)) = 6"
  by (simp add: tick_defs crowd_def bodyAt_def defaults_def)

section \<open>The collision resolver\<close>







text \<open>
  C3: for two bodies whose centers are at distance exactly 0 the resolver changes no
  velocity and every velocity stays finite. The function has no test of the distance: for
  two overlapping bodies with the same center the
  normal is \<open>0 / 0\<close>, the closing speed is \<open>NaN\<close>, which is not less than 0, and the four
  velocity components of the pair become \<open>NaN\<close>.
\<close>

theorem zero_distance_gives_NaN:
  "detectCollisions (bodyAt 100 5 0) (bodyAt 100 (- 5) 0)
   \<and> distance (bodyAt 100 5 0) (bodyAt 100 (- 5) 0) = Fin 0
   \<and> handleCollisionResponse (bodyAt 100 5 0) (bodyAt 100 (- 5) 0)
       = ((bodyAt 100 5 0)\<lparr>velocityX := NaN, velocityY := NaN\<rparr>,
          (bodyAt 100 (- 5) 0)\<lparr>velocityX := NaN, velocityY := NaN\<rparr>)"
  by (simp add: detectCollisions_def handleCollisionResponse_def impulse_def speed_def
      vCollisionNormX_def vCollisionNormY_def distance_def jpow2_def jsub_def bodyAt_def)


section \<open>Reproduction\<close>

text \<open>What a child is made of, whenever \<open>reproduceObject\<close> returns one.\<close>

lemma reproduceObject_child:
  assumes "reproduceObject cfg objects rnd k a b = (Some c, k')"
  shows "x c = jdiv (jadd (x a) (x b)) (Fin 2)" and "y c = jdiv (jadd (y a) (y b)) (Fin 2)"
    and "width c = jdiv (jadd (width a) (width b)) (Fin 2)"
    and "height c = jdiv (jadd (height a) (height b)) (Fin 2)"
    and "sprite c = sprite a" and "scale c = Fin 1" and "mass c = Fin 1"
    and "reproductionChance c = None"
  using assms by (auto simp add: reproduceObject_def split: if_splits)

text \<open>
  C4: a child that \<open>reproduceObject\<close> returns carries the first parent's
  \<open>reproductionChance\<close>, so that it can reproduce in turn, and it lies at the midpoint of
  the parents with their mean size, the first parent's sprite, scale 1 and mass 1. The
  object literal of the child sets every field but \<open>reproductionChance\<close>: for two parents
  of chance 0.01 and a draw of 0 the child is as described except that the field is
  \<open>undefined\<close>, and with the child as first parent the test fails on the same draw.
\<close>

theorem child_has_no_reproductionChance:
  "reproduceObject defaults [bodyAt 100 0 0, bodyAt 110 0 0] (\<lambda>k. 0) 0
       (bodyAt 100 0 0) (bodyAt 110 0 0)
     = (Some \<lparr> x = Fin 105, y = Fin 100, width = Fin 40, height = Fin 40,
               sprite = Some (Image ''a.png''), velocityX = Fin (- 5), velocityY = Fin (- 5),
               angle = Fin 0, angularVelocity = Fin (- (5 / 100)), scale = Fin 1, mass = Fin 1,
               reproductionChance = None \<rparr>, 5)
   \<and> reproductionChance (bodyAt 100 0 0) = Some (Fin (1 / 100))
   \<and> reproduceObject defaults [bodyAt 100 0 0, bodyAt 110 0 0] (\<lambda>k. 0) 0
       \<lparr> x = Fin 105, y = Fin 100, width = Fin 40, height = Fin 40,
         sprite = Some (Image ''a.png''), velocityX = Fin (- 5), velocityY = Fin (- 5),
         angle = Fin 0, angularVelocity = Fin (- (5 / 100)), scale = Fin 1, mass = Fin 1,
         reproductionChance = None \<rparr> (bodyAt 110 0 0)
     = (None, 1)"
  by (simp add: reproduceObject_def defaults_def bodyAt_def randomBetween_def)

section \<open>The integrator\<close>

text \<open>
  C5: for every body that is not wider nor higher than the canvas, one call of
  \<open>updateObject\<close> leaves the position within \<open>[width / 2, canvas width - width / 2]\<close>
  and \<open>[height / 2, canvas height - height / 2]\<close>. The lines under the comment
  ``Keep object within canvas boundaries'' are \<open>Math.min\<close> of \<open>Math.max\<close>, which return
  \<open>NaN\<close> for a position that is \<open>NaN\<close>. The second body that the resolver leaves for a
  pair at distance 0 is 40 by 40 and has \<open>NaN\<close> velocities: its position after
  \<open>updateObject\<close> is \<open>NaN\<close> on both axes, on a canvas of 800 by 600. In the loop, two
  resting bodies with the same center suffice: the tick commits the second one with a
  \<open>NaN\<close> position.
\<close>

theorem nan_velocity_escapes_clamp:
  "snd (handleCollisionResponse (bodyAt 100 5 0) (bodyAt 100 (- 5) 0))
     = (bodyAt 100 (- 5) 0)\<lparr>velocityX := NaN, velocityY := NaN\<rparr>
   \<and> width ((bodyAt 100 (- 5) 0)\<lparr>velocityX := NaN, velocityY := NaN\<rparr>) = Fin 40
   \<and> height ((bodyAt 100 (- 5) 0)\<lparr>velocityX := NaN, velocityY := NaN\<rparr>) = Fin 40
   \<and> x (updateObject defaults ((bodyAt 100 (- 5) 0)\<lparr>velocityX := NaN, velocityY := NaN\<rparr>)
         (Fin 800) (Fin 600)) = NaN
   \<and> y (updateObject defaults ((bodyAt 100 (- 5) 0)\<lparr>velocityX := NaN, velocityY := NaN\<rparr>)
         (Fin 800) (Fin 600)) = NaN
   \<and> map x (fst (animate defaults (\<lambda>k. 1 / 2) (Fin 800) (Fin 600) 0
               [bodyAt 100 0 (- (2 / 10)), bodyAt 100 0 (- (2 / 10))])) = [Fin 100, NaN]
   \<and> map y (fst (animate defaults (\<lambda>k. 1 / 2) (Fin 800) (Fin 600) 0
               [bodyAt 100 0 (- (2 / 10)), bodyAt 100 0 (- (2 / 10))])) = [Fin 100, NaN]"
  by (simp add: tick_defs jsub_def bodyAt_def defaults_def)

section \<open>The head-on scenario\<close>

text \<open>
  C6: two bodies of mass 1 at the same height, the first one on the left, with velocities
  \<open>(5, 0)\<close> and \<open>(-5, 0)\<close>: the resolver exchanges the velocities, which become
  \<open>(-5, 0)\<close> and \<open>(5, 0)\<close>, and changes nothing else.
\<close>

theorem head_on_swap:
  assumes "mass a = Fin 1" "mass b = Fin 1"
    and "velocityX a = Fin 5" "velocityY a = Fin 0"
    and "velocityX b = Fin (- 5)" "velocityY b = Fin 0"
    and "x a = Fin xa" "x b = Fin xb" "y a = Fin ya" "y b = Fin ya" "xa < xb"
  shows "handleCollisionResponse a b =
           (a\<lparr>velocityX := Fin (- 5), velocityY := Fin 0\<rparr>,
            b\<lparr>velocityX := Fin 5, velocityY := Fin 0\<rparr>)"
proof -
  note n = on_axis_normal [OF assms(7-11)]
  have s: "speed a b = Fin 10"
    using on_axis_speed [OF assms(7-11) assms(3) assms(5) assms(4) assms(6)] by simp
  have i: "impulse a b = Fin 10" using s assms(1,2) by (simp add: impulse_def)
  show ?thesis using s i n assms(1-6) by (simp add: handleCollisionResponse_def)
qed

theorem head_on_swap_witness:
  "(100::real) < 130
   \<and> handleCollisionResponse (bodyAt 100 5 0) (bodyAt 130 (- 5) 0)
       = (bodyAt 100 (- 5) 0, bodyAt 130 5 0)"
  using head_on_swap [of "bodyAt 100 5 0" "bodyAt 130 (- 5) 0" 100 130 100]
  by (simp add: bodyAt_def)

section \<open>The collision detector\<close>

text \<open>
  C7: \<open>detectCollisions\<close> gives the same answer for a pair and for the swapped pair,
  whatever the numbers in the bodies are.
\<close>

theorem detectCollisions_symmetric: "detectCollisions a b = detectCollisions b a"
  unfolding detectCollisions_def Let_def
  by (simp add: jsub_swap [of "x b" "x a"] jsub_swap [of "y b" "y a"] jmul_neg_neg
      jadd_commute [of "width a"])

section \<open>The scale\<close>

text \<open>
  C8, as the specification states it: a step adds 0.01 to the scale and then resets a
  scale of 1.5 or more, so the scale after a step is below 1.5. It fails for a body of
  scale 1.49: the test comes first and finds 1.49, then the step adds 0.01 and leaves 1.5.
\<close>

theorem scale_below_limit_counterexample:
  "\<not> jlt (scale (updateObject defaults ((bodyAt 100 0 0)\<lparr>scale := Fin (149 / 100)\<rparr>)
                  (Fin 800) (Fin 600)))
         (Fin (15 / 10))"
  by (simp add: bodyAt_def defaults_def updateObject_def Let_def jge_def)

text \<open>
  C8, amended: a step first resets a scale of 1.5 or more to 1 and then adds 0.01, so the
  scale after a step is below 1.51.
\<close>

theorem scale_update:
  assumes "scale obj = Fin s"
  shows "scale (updateObject cfg obj cw ch) = Fin ((if 15 / 10 \<le> s then 1 else s) + 1 / 100)
         \<and> (if 15 / 10 \<le> s then 1 else s) + 1 / 100 < 151 / 100"
  using assms by (simp add: updateObject_def Let_def jge_def not_less)

theorem scale_update_witness:
  "scale ((bodyAt 100 0 0)\<lparr>scale := Fin (15 / 10)\<rparr>) = Fin (15 / 10)
   \<and> scale (updateObject defaults ((bodyAt 100 0 0)\<lparr>scale := Fin (15 / 10)\<rparr>) (Fin 800) (Fin 600))
       = Fin (101 / 100)"
  using scale_update [of "(bodyAt 100 0 0)\<lparr>scale := Fin (15 / 10)\<rparr>" "15 / 10" defaults
      "Fin 800" "Fin 600"]
  by (simp add: bodyAt_def)

section \<open>Loading failures\<close>

lemma promise_all_rejects: "Inl e \<in> set ps \<Longrightarrow> \<exists>e'. promise_all ps = Inl e'"
proof (induction ps)
  case Nil
  then show ?case by simp
next
  case (Cons p ps)
  then show ?case by (cases p) (auto split: sum.splits)
qed

lemma createObjects_rejects:
  assumes "u \<in> set (userImages cfg)" "\<not> loads u"
  shows "createObjects cfg loads innerWidth innerHeight rnd = Inl ErrorEvent"
proof -
  have "Inl ErrorEvent \<in> set (map (loadImage loads) (userImages cfg))"
    using assms by (force simp add: loadImage_def)
  from promise_all_rejects [OF this] obtain e' where
    "promise_all (map (loadImage loads) (userImages cfg)) = Inl e'" by blast
  then show ?thesis by (cases e') (simp add: createObjects_def)
qed

text \<open>
  C9: when one sprite URL fails to load, its slot gets a placeholder and initialization
  still produces the \<open>objectCount\<close> bodies. \<open>createObjects\<close> awaits \<open>Promise.all\<close> of the
  loads and \<open>loadImage\<close> rejects on an error: with two URLs of which the second fails,
  \<open>createObjects\<close> rejects, no body is created and \<open>initialize\<close> leaves the state empty,
  for an \<open>objectCount\<close> of 5.
\<close>

theorem failed_url_rejects_all:
  "objectCount (defaults\<lparr>userImages := [''a.png'', ''b.png'']\<rparr>) = 5
   \<and> createObjects (defaults\<lparr>userImages := [''a.png'', ''b.png'']\<rparr>) (\<lambda>u. u = ''a.png'')
       (Fin 800) (Fin 600) (\<lambda>k. 0) = Inl ErrorEvent
   \<and> initialize (defaults\<lparr>userImages := [''a.png'', ''b.png'']\<rparr>) (\<lambda>u. u = ''a.png'')
       (Fin 800) (Fin 600) (\<lambda>k. 0) [] = []"
  by (simp add: createObjects_def initialize_def loadImage_def defaults_def)

section \<open>Momentum\<close>

text \<open>
  C10: for two bodies of finite state with positive masses and distinct centers, when the
  resolver applies its impulse the velocities stay finite, the masses are unchanged and
  the total momentum \<open>mass a * velocity a + mass b * velocity b\<close> is the same before and
  after on both axes, in real arithmetic.
\<close>

theorem momentum_conserved:
  assumes pos: "x a = Fin xa" "y a = Fin ya" "x b = Fin xb" "y b = Fin yb"
    and vel: "velocityX a = Fin ux" "velocityY a = Fin uy"
      "velocityX b = Fin wx" "velocityY b = Fin wy"
    and m: "mass a = Fin m1" "mass b = Fin m2" "0 < m1" "0 < m2"
    and distinct: "xa \<noteq> xb \<or> ya \<noteq> yb"
    and applied: "\<not> jlt (speed a b) (Fin 0)"
    and res: "handleCollisionResponse a b = (a', b')"
  shows "\<exists>ux' uy' wx' wy'.
           velocityX a' = Fin ux' \<and> velocityY a' = Fin uy' \<and>
           velocityX b' = Fin wx' \<and> velocityY b' = Fin wy' \<and>
           mass a' = Fin m1 \<and> mass b' = Fin m2 \<and>
           m1 * ux' + m2 * wx' = m1 * ux + m2 * wx \<and>
           m1 * uy' + m2 * wy' = m1 * uy + m2 * wy"
proof -
  define d where "d = sqrt ((xb - xa) * (xb - xa) + (yb - ya) * (yb - ya))"
  have d: "distance a b = Fin d" unfolding d_def by (rule distance_Fin [OF pos])
  have dpos: "0 < d" unfolding d_def by (rule distance_pos [OF distinct])
  define nx where "nx = (xb - xa) / d"
  define ny where "ny = (yb - ya) / d"
  have nx: "vCollisionNormX a b = Fin nx"
    using pos d dpos by (simp add: vCollisionNormX_def nx_def)
  have ny: "vCollisionNormY a b = Fin ny"
    using pos d dpos by (simp add: vCollisionNormY_def ny_def)
  define s where "s = (ux - wx) * nx + (uy - wy) * ny"
  have s: "speed a b = Fin s" using vel nx ny by (simp add: speed_def s_def)
  define i where "i = 2 * s / (m1 + m2)"
  have msum: "m1 + m2 \<noteq> 0" using m(3,4) by simp
  have i: "impulse a b = Fin i" using s m(1,2) msum by (simp add: impulse_def i_def)
  have a': "a' = a\<lparr>velocityX := Fin (ux - i * m2 * nx), velocityY := Fin (uy - i * m2 * ny)\<rparr>"
    and b': "b' = b\<lparr>velocityX := Fin (wx + i * m1 * nx), velocityY := Fin (wy + i * m1 * ny)\<rparr>"
    using res applied i nx ny vel m(1,2) by (simp_all add: handleCollisionResponse_def)
  have ex: "m1 * (ux - i * m2 * nx) + m2 * (wx + i * m1 * nx) = m1 * ux + m2 * wx"
    by (simp add: algebra_simps)
  have ey: "m1 * (uy - i * m2 * ny) + m2 * (wy + i * m1 * ny) = m1 * uy + m2 * wy"
    by (simp add: algebra_simps)
  show ?thesis using a' b' ex ey m(1,2) by simp
qed


text \<open>
  A body of mass 1 that runs into a body of mass 3 lying 3 to the right and 4 below: the
  normal is \<open>(0.6, 0.8)\<close>, the closing speed 6 and the impulse 3.
\<close>

theorem momentum_conserved_witness:
  "\<not> jlt (speed (bodyAt 100 5 0) ((bodyAt 103 (- 5) 0)\<lparr>y := Fin 104, mass := Fin 3\<rparr>)) (Fin 0)
   \<and> handleCollisionResponse (bodyAt 100 5 0) ((bodyAt 103 (- 5) 0)\<lparr>y := Fin 104, mass := Fin 3\<rparr>)
       = ((bodyAt 100 5 0)\<lparr>velocityX := Fin (- (4 / 10)), velocityY := Fin (- (72 / 10))\<rparr>,
          (bodyAt 103 (- 5) 0)\<lparr>y := Fin 104, mass := Fin 3,
             velocityX := Fin (- (32 / 10)), velocityY := Fin (24 / 10)\<rparr>)
   \<and> (1::real) * (- (4 / 10)) + 3 * (- (32 / 10)) = 1 * 5 + 3 * (- 5)
   \<and> (1::real) * (- (72 / 10)) + 3 * (24 / 10) = 1 * 0 + 3 * 0"
proof -
  have sp: "speed (bodyAt 100 5 0) ((bodyAt 103 (- 5) 0)\<lparr>y := Fin 104, mass := Fin 3\<rparr>) = Fin 6"
    by (simp add: speed_def vCollisionNormX_def vCollisionNormY_def distance_def jpow2_def
        bodyAt_def)
  have res: "handleCollisionResponse (bodyAt 100 5 0)
               ((bodyAt 103 (- 5) 0)\<lparr>y := Fin 104, mass := Fin 3\<rparr>)
       = ((bodyAt 100 5 0)\<lparr>velocityX := Fin (- (4 / 10)), velocityY := Fin (- (72 / 10))\<rparr>,
          (bodyAt 103 (- 5) 0)\<lparr>y := Fin 104, mass := Fin 3,
             velocityX := Fin (- (32 / 10)), velocityY := Fin (24 / 10)\<rparr>)"
    by (simp add: handleCollisionResponse_def impulse_def speed_def vCollisionNormX_def
        vCollisionNormY_def distance_def jpow2_def bodyAt_def)
  show ?thesis
    using sp res
      momentum_conserved [of "bodyAt 100 5 0" 100 100
        "(bodyAt 103 (- 5) 0)\<lparr>y := Fin 104, mass := Fin 3\<rparr>" 103 104 5 0 "- 5" 0 1 3
        "(bodyAt 100 5 0)\<lparr>velocityX := Fin (- (4 / 10)), velocityY := Fin (- (72 / 10))\<rparr>"
        "(bodyAt 103 (- 5) 0)\<lparr>y := Fin 104, mass := Fin 3,
             velocityX := Fin (- (32 / 10)), velocityY := Fin (24 / 10)\<rparr>"]
    by (simp add: bodyAt_def)
qed

end
